theory Spec2Isabelle
  imports Complex_Main
begin

section \<open>Python values used by eth\_kdj\_trader.py\<close>

text \<open>
  A Python float is a finite real, one of the two infinities, or NaN. Only the two
  comparisons of the poll loop (\<open>x < 20\<close>, \<open>x > 80\<close>) and truthiness are needed; a
  comparison with NaN is False, as in Python.
\<close>

datatype pyfloat = Fin real | PosInf | NegInf | NaN

fun flt_lt :: "pyfloat \<Rightarrow> real \<Rightarrow> bool" where
  "flt_lt (Fin x) c = (x < c)"
| "flt_lt PosInf c = False"
| "flt_lt NegInf c = True"
| "flt_lt NaN c = False"

fun flt_gt :: "pyfloat \<Rightarrow> real \<Rightarrow> bool" where
  "flt_gt (Fin x) c = (x > c)"
| "flt_gt PosInf c = True"
| "flt_gt NegInf c = False"
| "flt_gt NaN c = False"

text \<open>
  The exceptions the program can meet. \<open>APIError\<close> is \<open>tradeapi.rest.APIError\<close>: it
  carries the HTTP status code (absent when the error has no HTTP response) and the
  message that \<open>str(e)\<close> returns. Every constructor is a subclass of Python's
  \<open>Exception\<close>, so \<open>except Exception\<close> catches all of them.
\<close>

datatype exn =
    APIError "int option" string
  | JSONDecodeError
  | IndexError
  | KeyError
  | TypeError
  | AttributeError
  | ValueError
  | SendError
  | OtherException string

subsection \<open>Strings: \<open>str.lower\<close> and the \<open>in\<close> operator\<close>

text \<open>The messages lowered here are ASCII: the letters A to Z change, nothing else does.\<close>

definition lower_char :: "char \<Rightarrow> char" where
  "lower_char c =
     (case map_of (zip ''ABCDEFGHIJKLMNOPQRSTUVWXYZ'' ''abcdefghijklmnopqrstuvwxyz'') c of
        Some l \<Rightarrow> l
      | None \<Rightarrow> c)"

definition lower :: "string \<Rightarrow> string" where
  "lower s = map lower_char s"

fun starts_with :: "string \<Rightarrow> string \<Rightarrow> bool" where
  "starts_with [] s = True"
| "starts_with (p # ps) [] = False"
| "starts_with (p # ps) (c # cs) = (p = c \<and> starts_with ps cs)"

text \<open>\<open>str_in p s\<close> is Python's \<open>p in s\<close> on two strings: \<open>p\<close> occurs in \<open>s\<close>.\<close>

fun str_in :: "string \<Rightarrow> string \<Rightarrow> bool" where
  "str_in p [] = (p = [])"
| "str_in p (c # cs) = (starts_with p (c # cs) \<or> str_in p cs)"

section \<open>Data frames\<close>

text \<open>
  A pandas DataFrame of floats: a number of rows and the columns in order, a column
  being its label and its cells by row number (read below \<open>nrows\<close> only). Labels may
  repeat, as pandas allows.
\<close>

record frame =
  nrows :: nat
  cols :: "(string \<times> (nat \<Rightarrow> pyfloat)) list"

text \<open>\<open>pd.DataFrame()\<close>: no rows and no columns.\<close>

definition DataFrame :: frame where
  "DataFrame = \<lparr>nrows = 0, cols = []\<rparr>"

text \<open>\<open>df.empty\<close> holds when either axis has length 0; \<open>len(df)\<close> is the number of rows.\<close>

definition df_empty :: "frame \<Rightarrow> bool" where
  "df_empty df = (nrows df = 0 \<or> cols df = [])"

definition df_len :: "frame \<Rightarrow> nat" where
  "df_len df = nrows df"

definition columns :: "frame \<Rightarrow> string list" where
  "columns df = map fst (cols df)"

text \<open>\<open>data.columns = [col.lower() for col in data.columns]\<close>\<close>

definition lower_columns :: "frame \<Rightarrow> frame" where
  "lower_columns df = df\<lparr>cols := map (\<lambda>c. (lower (fst c), snd c)) (cols df)\<rparr>"

text \<open>
  \<open>df[name]\<close>: the cells of every column with that label (one column when labels are
  unique), KeyError when there is none.
\<close>

definition getitem :: "frame \<Rightarrow> string \<Rightarrow> exn + pyfloat list list" where
  "getitem df name =
     (case filter (\<lambda>c. fst c = name) (cols df) of
        [] \<Rightarrow> Inl KeyError
      | cs \<Rightarrow> Inr (map (\<lambda>c. map (snd c) [0..<nrows df]) cs))"

text \<open>\<open>df.rename(columns=m)\<close>: labels in \<open>m\<close> are replaced, the others kept.\<close>

definition rename :: "(string \<times> string) list \<Rightarrow> frame \<Rightarrow> frame" where
  "rename m df =
     df\<lparr>cols := map (\<lambda>c. (case map_of m (fst c) of Some n \<Rightarrow> n | None \<Rightarrow> fst c, snd c)) (cols df)\<rparr>"

text \<open>
  \<open>df[[n1, n2, ...]]\<close>: for each requested label in turn, every column carrying it;
  KeyError when a label is missing.
\<close>

definition select :: "frame \<Rightarrow> string list \<Rightarrow> exn + frame" where
  "select df names =
     (if list_all (\<lambda>n. n \<in> set (columns df)) names
      then Inr (df\<lparr>cols := concat (map (\<lambda>n. filter (\<lambda>c. fst c = n) (cols df)) names)\<rparr>)
      else Inl KeyError)"

text \<open>
  \<open>df.iloc[-1]\<close>: the last row as a Series (label, cell), IndexError on a frame with
  no rows.
\<close>

definition iloc_last :: "frame \<Rightarrow> exn + (string \<times> pyfloat) list" where
  "iloc_last df =
     (if nrows df = 0 then Inl IndexError
      else Inr (map (\<lambda>c. (fst c, snd c (nrows df - 1))) (cols df)))"

text \<open>
  \<open>series[name]\<close> used as a float (compared with a number, formatted with \<open>.2f\<close>):
  KeyError when the label is missing; when the label repeats, the lookup gives a Series and
  its use as one float raises (ValueError for the truth value in \<open>and\<close>).
\<close>

definition series_get :: "(string \<times> pyfloat) list \<Rightarrow> string \<Rightarrow> exn + pyfloat" where
  "series_get s name =
     (case filter (\<lambda>c. fst c = name) s of
        [] \<Rightarrow> Inl KeyError
      | [c] \<Rightarrow> Inr (snd c)
      | _ \<Rightarrow> Inl ValueError)"

section \<open>The indicator adapter\<close>

text \<open>
  \<open>ta.kdj\<close> belongs to the pandas\_ta library, which is not part of the repository: it
  is a parameter of the model, a function of the three price series that raises, returns
  None (pandas\_ta's answer to a series that is too short), or returns a frame.
\<close>

datatype lib_result = LibRaises exn | LibNone | LibFrame frame

type_synonym kdj_lib = "pyfloat list list \<Rightarrow> pyfloat list list \<Rightarrow> pyfloat list list \<Rightarrow> lib_result"

text \<open>
  \<open>calculate_kdj(data)\<close>. Every exception of the body is caught and gives
  \<open>pd.DataFrame()\<close>: a missing high, low or close column, an exception of the library,
  and the AttributeError of \<open>kdj_result.columns\<close> on None.
\<close>

definition calculate_kdj :: "kdj_lib \<Rightarrow> frame \<Rightarrow> frame" where
  "calculate_kdj ta_kdj data0 =
     (let data = lower_columns data0 in
      case getitem data ''high'' of Inl e \<Rightarrow> DataFrame | Inr high \<Rightarrow>
      (case getitem data ''low'' of Inl e \<Rightarrow> DataFrame | Inr low \<Rightarrow>
      (case getitem data ''close'' of Inl e \<Rightarrow> DataFrame | Inr close \<Rightarrow>
      (case ta_kdj high low close of
         LibRaises e \<Rightarrow> DataFrame
       | LibNone \<Rightarrow> DataFrame
       | LibFrame kdj_result \<Rightarrow>
           if ''K_9_3'' \<in> set (columns kdj_result) \<and>
              ''D_9_3'' \<in> set (columns kdj_result) \<and>
              ''J_9_3'' \<in> set (columns kdj_result)
           then
             (case select
                     (rename [(''K_9_3'', ''K_9''), (''D_9_3'', ''D_9''), (''J_9_3'', ''J_9'')]
                        kdj_result)
                     [''K_9'', ''D_9'', ''J_9''] of
                Inl e \<Rightarrow> DataFrame
              | Inr final_kdj \<Rightarrow> final_kdj)
           else DataFrame))))"

section \<open>The exchange client and the order executor\<close>

text \<open>
  Every call the program makes on the REST client is recorded, with its arguments, in
  the order it is made. Dates are day numbers; \<open>GetCryptoBars symbol timeframe s e\<close>
  is the request from 00:00:00 of day \<open>s\<close> to 23:59:59.999999 of day \<open>e\<close>
  (New York time), as \<open>fetch_15min_data\<close> builds it. \<open>SubmitOrder\<close> carries symbol,
  notional, side, type and time in force.
\<close>

datatype api_call =
    GetAccount
  | GetCryptoBars string string int int
  | ListPositions
  | GetLatestCryptoQuotes "string list"
  | SubmitOrder string pyfloat string string string
  | ClosePosition string

record position =
  pos_symbol :: string
  qty :: string

text \<open>
  What the client answers during one cycle: each call returns (\<open>Inr\<close>) or raises
  (\<open>Inl\<close>). \<open>get_account\<close> stands for \<open>api.get_account()\<close> followed by
  \<open>float(account.buying_power)\<close>. The quotes are a dict from symbol to quote object, of
  which only the truth value is used.
\<close>

record client =
  get_account :: "exn + pyfloat"
  get_crypto_bars :: "exn + frame"
  list_positions :: "exn + position list"
  get_latest_crypto_quotes :: "exn + (string \<times> bool) list"
  submit_order :: "exn + unit"
  api_close_position :: "exn + unit"

text \<open>
  \<open>fetch_15min_data(api, symbol, start_date, end_date)\<close>: the bars, or None when the
  call raises or the frame is empty. The index of the frame (its time zone and name) is
  not modelled.
\<close>

definition fetch_15min_data :: "client \<Rightarrow> string \<Rightarrow> int \<Rightarrow> int \<Rightarrow> api_call list \<times> frame option" where
  "fetch_15min_data api symbol start_date end_date =
     ([GetCryptoBars symbol ''15Min'' start_date end_date],
      case get_crypto_bars api of
        Inl e \<Rightarrow> None
      | Inr bars \<Rightarrow> if df_empty bars then None else Some bars)"

text \<open>\<open>place_order(api, symbol, buying_power, side)\<close>: the calls made and the boolean returned.\<close>

definition place_order :: "client \<Rightarrow> string \<Rightarrow> pyfloat \<Rightarrow> string \<Rightarrow> api_call list \<times> bool" where
  "place_order api symbol buying_power side =
     (case get_latest_crypto_quotes api of
        Inl e \<Rightarrow> ([GetLatestCryptoQuotes [symbol]], False)
      | Inr quotes \<Rightarrow>
          (case map_of quotes symbol of
             None \<Rightarrow> ([GetLatestCryptoQuotes [symbol]], False)
           | Some q \<Rightarrow>
               if \<not> q then ([GetLatestCryptoQuotes [symbol]], False)
               else if side = ''buy'' then
                 (case submit_order api of
                    Inr u \<Rightarrow>
                      ([GetLatestCryptoQuotes [symbol],
                        SubmitOrder symbol buying_power ''buy'' ''market'' ''gtc''], True)
                  | Inl e \<Rightarrow>
                      ([GetLatestCryptoQuotes [symbol],
                        SubmitOrder symbol buying_power ''buy'' ''market'' ''gtc''], False))
               else if side = ''sell'' then ([GetLatestCryptoQuotes [symbol]], False)
               else ([GetLatestCryptoQuotes [symbol]], False)))"

text \<open>\<open>close_position(api, symbol)\<close>: the calls made and the boolean returned.\<close>

definition close_position :: "client \<Rightarrow> string \<Rightarrow> api_call list \<times> bool" where
  "close_position api symbol =
     (case api_close_position api of
        Inr u \<Rightarrow> ([ClosePosition symbol], True)
      | Inl (APIError status msg) \<Rightarrow>
          if status = Some 404 \<and> str_in ''position does not exist'' (lower msg)
          then ([ClosePosition symbol], True)
          else ([ClosePosition symbol], False)
      | Inl e \<Rightarrow> ([ClosePosition symbol], False))"

section \<open>The poll loop\<close>

text \<open>
  The position the cycle tracks: the first listed position of the symbol; None when
  there is none and also when \<open>list_positions\<close> raises (an APIError of any status, or
  any other exception: both handlers set \<open>current_position = None\<close>).
\<close>

definition track_position :: "client \<Rightarrow> string \<Rightarrow> position option" where
  "track_position api symbol =
     (case list_positions api of
        Inr positions \<Rightarrow> find (\<lambda>p. pos_symbol p = symbol) positions
      | Inl (APIError status msg) \<Rightarrow> None
      | Inl e \<Rightarrow> None)"

text \<open>
  One pass of the body of \<open>while True\<close> is given in three parts, in the order of the
  source. Logging is left out. \<open>read_inputs\<close> is lines 229 to 248: the buying power,
  the bars, the indicator, its latest row. It gives the calls made and, unless the cycle
  stops there, the buying power and the latest indicator row (\<open>prev_kdj\<close> is computed
  by the source and never used).
\<close>

definition read_inputs ::
  "kdj_lib \<Rightarrow> client \<Rightarrow> string \<Rightarrow> int \<Rightarrow> int \<Rightarrow>
     api_call list \<times> (pyfloat \<times> (string \<times> pyfloat) list) option" where
  "read_inputs ta_kdj api symbol start_date end_date =
     (case get_account api of
        Inl e \<Rightarrow> ([GetAccount], None)
      | Inr buying_power \<Rightarrow>
          (let (c1, fetched) = fetch_15min_data api symbol start_date end_date in
           case fetched of
             None \<Rightarrow> (GetAccount # c1, None)
           | Some data0 \<Rightarrow>
               if df_empty data0 then (GetAccount # c1, None)
               else
                 (let data = lower_columns data0;
                      kdj = calculate_kdj ta_kdj data in
                  if df_empty kdj \<or> df_len kdj < 1 then (GetAccount # c1, None)
                  else
                    (case iloc_last kdj of
                       Inl e \<Rightarrow> (GetAccount # c1, None)
                     | Inr latest_kdj \<Rightarrow> (GetAccount # c1, Some (buying_power, latest_kdj))))))"

text \<open>
  \<open>decide\<close> is lines 268 to 280: the decision on the latest row and the tracked
  position. It gives the calls made and the seconds slept: 900 after a decision, 60 when
  reading the row raises (the outer handler of the loop catches it).
\<close>

definition decide ::
  "client \<Rightarrow> string \<Rightarrow> pyfloat \<Rightarrow> (string \<times> pyfloat) list \<Rightarrow> position option \<Rightarrow>
     api_call list \<times> nat" where
  "decide api symbol buying_power latest_kdj current_position =
     (case series_get latest_kdj ''K_9'' of
        Inl e \<Rightarrow> ([], 60)
      | Inr k \<Rightarrow>
          if flt_lt k 20 \<and> current_position = None
          then (fst (place_order api symbol buying_power ''buy''), 900)
          else if flt_gt k 80 \<and> current_position \<noteq> None
          then (fst (close_position api symbol), 900)
          else
            (case series_get latest_kdj ''D_9'' of
               Inl e \<Rightarrow> ([], 60)
             | Inr d \<Rightarrow>
                 (case series_get latest_kdj ''J_9'' of
                    Inl e \<Rightarrow> ([], 60)
                  | Inr j \<Rightarrow> ([], 900))))"

text \<open>
  The whole pass: the calls made on the client and the seconds slept at its end (60
  after an abort). The position is queried (lines 250 to 266) between the two parts.
\<close>

record cycle_result =
  issued :: "api_call list"
  slept :: nat

definition cycle :: "kdj_lib \<Rightarrow> client \<Rightarrow> string \<Rightarrow> int \<Rightarrow> int \<Rightarrow> cycle_result" where
  "cycle ta_kdj api symbol start_date end_date =
     (case read_inputs ta_kdj api symbol start_date end_date of
        (c1, None) \<Rightarrow> \<lparr>issued = c1, slept = 60\<rparr>
      | (c1, Some (buying_power, latest_kdj)) \<Rightarrow>
          (let current_position = track_position api symbol;
               (c2, s) = decide api symbol buying_power latest_kdj current_position
           in \<lparr>issued = c1 @ [ListPositions] @ c2, slept = s\<rparr>))"

text \<open>
  The process: a clock in seconds and the calls made so far. \<open>time.sleep\<close> advances
  the clock; \<open>datetime.now().date()\<close> is the day number of the clock.
\<close>

record world =
  clock :: nat
  calls :: "api_call list"

definition today :: "world \<Rightarrow> int" where
  "today w = int (clock w div 86400)"

text \<open>
  The loop \<open>while True\<close> never ends; \<open>poll_loop\<close> runs it for as many cycles as
  there are client answers in the list, one per cycle.
\<close>

fun poll_loop :: "kdj_lib \<Rightarrow> string \<Rightarrow> int \<Rightarrow> int \<Rightarrow> client list \<Rightarrow> world \<Rightarrow> world" where
  "poll_loop ta_kdj symbol start_date end_date [] w = w"
| "poll_loop ta_kdj symbol start_date end_date (api # apis) w =
     (let r = cycle ta_kdj api symbol start_date end_date in
      poll_loop ta_kdj symbol start_date end_date apis
        (w\<lparr>clock := clock w + slept r, calls := calls w @ issued r\<rparr>))"

text \<open>
  The main block from line 224 on: the two dates are computed once, then the loop runs
  with them.
\<close>

definition main :: "kdj_lib \<Rightarrow> client list \<Rightarrow> world \<Rightarrow> world" where
  "main ta_kdj apis w =
     (let symbol = ''ETH/USDC'';
          end_date = today w;
          start_date = end_date - 30
      in poll_loop ta_kdj symbol start_date end_date apis w)"

section \<open>The stream listener\<close>

text \<open>
  What \<open>json.loads\<close> returns. An object keeps its pairs in the order of the text; the
  dict Python builds from it holds, for a repeated key, the last value.
\<close>

datatype json =
    JNull
  | JBool bool
  | JNum pyfloat
  | JStr string
  | JArr "json list"
  | JObj "(string \<times> json) list"

definition dict_get :: "(string \<times> json) list \<Rightarrow> string \<Rightarrow> json option" where
  "dict_get kvs k = map_of (rev kvs) k"

text \<open>The truth value of \<open>data\<close> in \<open>not data\<close>.\<close>

fun truthy :: "json \<Rightarrow> bool" where
  "truthy JNull = False"
| "truthy (JBool b) = b"
| "truthy (JNum (Fin x)) = (x \<noteq> 0)"
| "truthy (JNum f) = True"
| "truthy (JStr s) = (s \<noteq> [])"
| "truthy (JArr xs) = (xs \<noteq> [])"
| "truthy (JObj kvs) = (kvs \<noteq> [])"

text \<open>
  \<open>x[0]\<close>: the first element of a list or the first character of a string, IndexError
  when it is empty; KeyError on a dict (its keys are strings); TypeError otherwise.
\<close>

fun subscript0 :: "json \<Rightarrow> exn + json" where
  "subscript0 (JArr []) = Inl IndexError"
| "subscript0 (JArr (x # xs)) = Inr x"
| "subscript0 (JStr []) = Inl IndexError"
| "subscript0 (JStr (c # cs)) = Inr (JStr [c])"
| "subscript0 (JObj kvs) = Inl KeyError"
| "subscript0 x = Inl TypeError"

text \<open>
  \<open>'T' in x\<close>: a key of a dict, an element of a list, a substring of a string;
  TypeError on None, a boolean or a number.
\<close>

fun contains_T :: "json \<Rightarrow> exn + bool" where
  "contains_T (JObj kvs) = Inr (dict_get kvs ''T'' \<noteq> None)"
| "contains_T (JArr xs) = Inr (JStr ''T'' \<in> set xs)"
| "contains_T (JStr s) = Inr (str_in ''T'' s)"
| "contains_T x = Inl TypeError"

text \<open>\<open>x.get(k, default)\<close>: only a dict has the method.\<close>

fun py_get :: "json \<Rightarrow> string \<Rightarrow> json \<Rightarrow> exn + json" where
  "py_get (JObj kvs) k dflt = Inr (case dict_get kvs k of Some v \<Rightarrow> v | None \<Rightarrow> dflt)"
| "py_get x k dflt = Inl AttributeError"

text \<open>\<open>x[k]\<close> for a string key \<open>k\<close>: KeyError on a dict without it, TypeError otherwise.\<close>

fun subscript_key :: "json \<Rightarrow> string \<Rightarrow> exn + json" where
  "subscript_key (JObj kvs) k = (case dict_get kvs k of Some v \<Rightarrow> Inr v | None \<Rightarrow> Inl KeyError)"
| "subscript_key x k = Inl TypeError"

text \<open>The two requests the listener sends, and its log lines (level and subject).\<close>

datatype ws_msg = AuthMsg string string | SubscribeMsg "string list" "string list"

datatype log_entry = LogInfo string | LogWarning string | LogError string

text \<open>
  What the handlers close over: the credentials and the symbol; \<open>json.loads\<close>, which
  is given as a function from the text to the value, None when the text is not JSON; and
  the socket, \<open>ws_send m\<close> telling whether \<open>ws.send\<close> delivers \<open>m\<close> (True) or
  raises.
\<close>

record stream_ctx =
  api_key :: string
  secret_key :: string
  stream_symbol :: string
  json_loads :: "string \<Rightarrow> json option"
  ws_send :: "ws_msg \<Rightarrow> bool"

text \<open>
  The pair of sends of lines 151-152 and 192-193: the messages delivered, and the
  exception if a send raises (the second send is then not reached).
\<close>

definition send_auth_subscribe :: "stream_ctx \<Rightarrow> ws_msg list \<times> exn option" where
  "send_auth_subscribe ctx =
     (let auth = AuthMsg (api_key ctx) (secret_key ctx);
          subscribe = SubscribeMsg [stream_symbol ctx] []
      in if \<not> ws_send ctx auth then ([], Some SendError)
         else if \<not> ws_send ctx subscribe then ([auth], Some SendError)
         else ([auth, subscribe], None))"

text \<open>
  The results of the parts of \<open>on_message\<close>: the messages sent, the lines logged, and
  the exception raised, if any.
\<close>

type_synonym handled = "ws_msg list \<times> log_entry list \<times> exn option"

text \<open>Lines 149 to 153: the branch taken when \<open>data\<close> is falsy or its first element has no 'T'.\<close>

definition connected_branch :: "stream_ctx \<Rightarrow> json \<Rightarrow> handled" where
  "connected_branch ctx data =
     (case subscript0 data of
        Inl e \<Rightarrow> ([], [], Some e)
      | Inr d0 \<Rightarrow>
          (case py_get d0 ''msg'' JNull of
             Inl e \<Rightarrow> ([], [], Some e)
           | Inr m \<Rightarrow>
               if m = JStr ''connected''
               then (let (msgs, r) = send_auth_subscribe ctx
                     in (msgs, [LogInfo ''connected''], r))
               else ([], [], None)))"

text \<open>Lines 155 to 176: the dispatch on the type tag of the first element.\<close>

definition dispatch :: "json \<Rightarrow> handled" where
  "dispatch d0 =
     (case subscript_key d0 ''T'' of
        Inl e \<Rightarrow> ([], [], Some e)
      | Inr message_type \<Rightarrow>
          if message_type = JStr ''trade_update'' then
            (case py_get d0 ''order'' (JObj []) of
               Inl e \<Rightarrow> ([], [], Some e)
             | Inr order \<Rightarrow>
                 (case py_get order ''id'' JNull of
                    Inl e \<Rightarrow> ([], [], Some e)
                  | Inr i \<Rightarrow> ([], [LogInfo ''trade update''], None)))
          else if message_type = JStr ''q'' then ([], [], None)
          else if message_type = JStr ''s'' then
            (case py_get d0 ''streams'' JNull of
               Inl e \<Rightarrow> ([], [], Some e)
             | Inr s \<Rightarrow> ([], [LogInfo ''subscription''], None))
          else ([], [], None))"

text \<open>The body of the \<open>try\<close> of \<open>on_message\<close>, lines 147 to 176.\<close>

definition on_message_body :: "stream_ctx \<Rightarrow> string \<Rightarrow> handled" where
  "on_message_body ctx message =
     (case json_loads ctx message of
        None \<Rightarrow> ([], [], Some JSONDecodeError)
      | Some data \<Rightarrow>
          if \<not> truthy data then connected_branch ctx data
          else
            (case subscript0 data of
               Inl e \<Rightarrow> ([], [], Some e)
             | Inr d0 \<Rightarrow>
                 (case contains_T d0 of
                    Inl e \<Rightarrow> ([], [], Some e)
                  | Inr has_T \<Rightarrow>
                      if \<not> has_T then connected_branch ctx data else dispatch d0)))"

text \<open>
  \<open>on_message(ws, message)\<close>: the body under \<open>except Exception\<close> of line 178, which
  logs the exception and returns.
\<close>

definition on_message :: "stream_ctx \<Rightarrow> string \<Rightarrow> handled" where
  "on_message ctx message =
     (case on_message_body ctx message of
        (msgs, logged, None) \<Rightarrow> (msgs, logged, None)
      | (msgs, logged, Some e) \<Rightarrow> (msgs, logged @ [LogError ''message handling''], None))"

text \<open>\<open>on_open(ws)\<close>: a log line and the two sends, with no handler around them.\<close>

definition on_open :: "stream_ctx \<Rightarrow> handled" where
  "on_open ctx = (let (msgs, r) = send_auth_subscribe ctx in (msgs, [LogInfo ''open''], r))"

text \<open>
  \<open>on_close(ws, close_status_code, close_msg)\<close>: two log lines, a sleep of 5
  seconds, then \<open>asyncio.run(websocket_stream(...))\<close>. The handler runs inside the
  event loop that line 214 started for the listener, where \<open>asyncio.run\<close> raises
  RuntimeError: no new connection is made.
\<close>

definition on_close :: handled where
  "on_close =
     ([], [LogInfo ''closed'', LogInfo ''reconnecting''],
      Some (OtherException ''asyncio.run() cannot be called from a running event loop''))"

text \<open>The events the websocket library delivers to the callbacks.\<close>

datatype event = Opened | Message string | Failed string | Closed

text \<open>
  The session: what was sent and logged, the number of messages handled, and whether
  the listener is still receiving. The websocket library catches an exception that escapes
  a callback and goes on delivering: a send that fails in \<open>on_open\<close> does not end the
  session. For a message the model is stricter than the library: were an exception to
  escape \<open>on_message\<close>, the session would count as ended. The close of the transport
  ends it: \<open>run_forever\<close> returns after \<open>on_close\<close>, whose reconnection fails.
\<close>

record session =
  sent :: "ws_msg list"
  logs :: "log_entry list"
  handled_count :: nat
  alive :: bool

definition step :: "stream_ctx \<Rightarrow> event \<Rightarrow> session \<Rightarrow> session" where
  "step ctx ev s =
     (case ev of
        Opened \<Rightarrow>
          (let (m, l, r) = on_open ctx
           in s\<lparr>sent := sent s @ m, logs := logs s @ l\<rparr>)
      | Message msg \<Rightarrow>
          (let (m, l, r) = on_message ctx msg
           in s\<lparr>sent := sent s @ m, logs := logs s @ l,
                handled_count := handled_count s + 1, alive := (r = None)\<rparr>)
      | Failed err \<Rightarrow> s\<lparr>logs := logs s @ [LogError ''websocket error'']\<rparr>
      | Closed \<Rightarrow>
          (let (m, l, r) = on_close
           in s\<lparr>sent := sent s @ m, logs := logs s @ l, alive := False\<rparr>))"

fun listen :: "stream_ctx \<Rightarrow> event list \<Rightarrow> session \<Rightarrow> session" where
  "listen ctx [] s = s"
| "listen ctx (ev # evs) s = (if alive s then listen ctx evs (step ctx ev s) else s)"

section \<open>Vocabulary of the statements\<close>

fun is_submit :: "api_call \<Rightarrow> bool" where
  "is_submit (SubmitOrder s n sd ty tif) = True"
| "is_submit c = False"

fun is_close :: "api_call \<Rightarrow> bool" where
  "is_close (ClosePosition s) = True"
| "is_close c = False"

fun is_bars :: "api_call \<Rightarrow> bool" where
  "is_bars (GetCryptoBars s tf a b) = True"
| "is_bars c = False"

text \<open>
  The latest quote of the symbol can be obtained: the quotes call returns a dict that
  holds the symbol with a true value (line 97 of the source).
\<close>

definition quote_available :: "client \<Rightarrow> string \<Rightarrow> bool" where
  "quote_available api symbol =
     (case get_latest_crypto_quotes api of
        Inl e \<Rightarrow> False
      | Inr quotes \<Rightarrow> map_of quotes symbol = Some True)"

text \<open>The process starts at second \<open>t\<close> with no call made yet.\<close>

definition start_world :: "nat \<Rightarrow> world" where
  "start_world t = \<lparr>clock = t, calls = []\<rparr>"

text \<open>The renaming of \<open>calculate_kdj\<close>, as a function on labels.\<close>

definition kdj_renaming :: "(string \<times> string) list" where
  "kdj_renaming = [(''K_9_3'', ''K_9''), (''D_9_3'', ''D_9''), (''J_9_3'', ''J_9'')]"

definition rn :: "string \<Rightarrow> string" where
  "rn x = (case map_of kdj_renaming x of Some n \<Rightarrow> n | None \<Rightarrow> x)"

text \<open>
  Every subscribe request in a list of sent messages is the listener's, and the message
  just before it is the listener's credentials.
\<close>

definition follows_auth :: "stream_ctx \<Rightarrow> ws_msg list \<Rightarrow> bool" where
  "follows_auth ctx xs =
     (\<forall>i q t. i < length xs \<and> xs ! i = SubscribeMsg q t \<longrightarrow>
        0 < i \<and> xs ! (i - 1) = AuthMsg (api_key ctx) (secret_key ctx) \<and>
        q = [stream_symbol ctx] \<and> t = [])"

text \<open>
  The messages on which \<open>on_message\<close> sends: a non-empty array whose first element is
  an object without the key 'T' and with \<open>msg\<close> equal to 'connected'.
\<close>

fun is_connected :: "json \<Rightarrow> bool" where
  "is_connected (JArr (JObj kvs # rest)) =
     (dict_get kvs ''T'' = None \<and> dict_get kvs ''msg'' = Some (JStr ''connected''))"
| "is_connected data = False"

subsection \<open>Concrete inputs\<close>

text \<open>
  One 15-minute bar with the columns Alpaca sends, a library answer whose latest K is
  15, and a client with buying power 1000.00, no position, a quote for the symbol and
  calls that succeed.
\<close>

definition example_bars :: frame where
  "example_bars =
     \<lparr>nrows = 1,
      cols = [(''open'', \<lambda>i. Fin 2500), (''high'', \<lambda>i. Fin 2510), (''low'', \<lambda>i. Fin 2490),
              (''close'', \<lambda>i. Fin 2505), (''volume'', \<lambda>i. Fin 12)]\<rparr>"

definition example_kdj :: "real \<Rightarrow> kdj_lib" where
  "example_kdj k =
     (\<lambda>high low close.
        LibFrame \<lparr>nrows = 1,
                  cols = [(''K_9_3'', \<lambda>i. Fin k), (''D_9_3'', \<lambda>i. Fin 30),
                          (''J_9_3'', \<lambda>i. Fin (3 * k - 60))]\<rparr>)"

text \<open>A library answer that holds, beside the three expected columns, a column already named K\_9.\<close>

definition clashing_kdj :: kdj_lib where
  "clashing_kdj =
     (\<lambda>high low close.
        LibFrame \<lparr>nrows = 1,
                  cols = [(''K_9_3'', \<lambda>i. Fin 15), (''K_9'', \<lambda>i. Fin 99),
                          (''D_9_3'', \<lambda>i. Fin 30), (''J_9_3'', \<lambda>i. Fin (- 15))]\<rparr>)"

definition example_client :: client where
  "example_client =
     \<lparr>get_account = Inr (Fin 1000),
      get_crypto_bars = Inr example_bars,
      list_positions = Inr [],
      get_latest_crypto_quotes = Inr [(''ETH/USDC'', True)],
      submit_order = Inr (),
      api_close_position = Inr ()\<rparr>"

definition example_position :: position where
  "example_position = \<lparr>pos_symbol = ''ETH/USDC'', qty = ''0.4''\<rparr>"

definition new_session :: session where
  "new_session = \<lparr>sent = [], logs = [], handled_count = 0, alive = True\<rparr>"

text \<open>
  A context for the examples: every send is delivered, and four texts stand for a
  confirmation without type tag, an empty array, a trade update whose order is null, and
  an unknown type tag; any other text is not JSON.
\<close>

definition example_loads :: "string \<Rightarrow> json option" where
  "example_loads msg =
     map_of
       [(''[{msg: connected}]'', JArr [JObj [(''msg'', JStr ''connected'')]]),
        (''[]'', JArr []),
        (''[{T: trade_update, order: null}]'',
           JArr [JObj [(''T'', JStr ''trade_update''), (''order'', JNull)]]),
        (''[{T: zz}]'', JArr [JObj [(''T'', JStr ''zz'')]])]
       msg"

definition example_ctx :: stream_ctx where
  "example_ctx =
     \<lparr>api_key = ''key'', secret_key = ''secret'', stream_symbol = ''ETH/USDC'',
      json_loads = example_loads, ws_send = (\<lambda>m. True)\<rparr>"

section \<open>Properties\<close>

subsection \<open>Calls made by the parts of a cycle\<close>

lemmas example_defs =
  example_bars_def example_kdj_def example_client_def example_position_def start_world_def
  cycle_def read_inputs_def decide_def fetch_15min_data_def calculate_kdj_def
  lower_columns_def getitem_def rename_def select_def columns_def df_empty_def df_len_def
  iloc_last_def series_get_def track_position_def place_order_def close_position_def
  DataFrame_def quote_available_def lower_def lower_char_def today_def main_def

lemma place_order_buy_calls:
  "fst (place_order api s bp ''buy'') =
     (if quote_available api s
      then [GetLatestCryptoQuotes [s], SubmitOrder s bp ''buy'' ''market'' ''gtc'']
      else [GetLatestCryptoQuotes [s]])"
  by (auto simp: place_order_def quote_available_def split: sum.splits option.splits)

lemma close_position_calls: "fst (close_position api s) = [ClosePosition s]"
  by (simp add: close_position_def split: sum.splits exn.splits)

lemma read_inputs_calls:
  "fst (read_inputs ta api s sd ed) = [GetAccount] \<or>
   fst (read_inputs ta api s sd ed) = [GetAccount, GetCryptoBars s ''15Min'' sd ed]"
  by (simp add: read_inputs_def fetch_15min_data_def Let_def split: sum.splits option.splits)

lemma read_inputs_filter:
  "filter is_submit (fst (read_inputs ta api s sd ed)) = []"
  "filter is_close (fst (read_inputs ta api s sd ed)) = []"
  using read_inputs_calls[of ta api s sd ed] by auto

lemma decide_calls:
  "fst (decide api s bp latest pos) =
     (case series_get latest ''K_9'' of
        Inl e \<Rightarrow> []
      | Inr k \<Rightarrow>
          if flt_lt k 20 \<and> pos = None then fst (place_order api s bp ''buy'')
          else if flt_gt k 80 \<and> pos \<noteq> None then [ClosePosition s]
          else [])"
  by (auto simp: decide_def close_position_calls split: sum.splits)

lemma decide_slept: "snd (decide api s bp latest pos) = 60 \<or> snd (decide api s bp latest pos) = 900"
  by (auto simp: decide_def split: sum.splits)

lemma cycle_issued:
  "issued (cycle ta api s sd ed) =
     (case snd (read_inputs ta api s sd ed) of
        None \<Rightarrow> fst (read_inputs ta api s sd ed)
      | Some (bp, latest) \<Rightarrow>
          fst (read_inputs ta api s sd ed) @ [ListPositions] @
          fst (decide api s bp latest (track_position api s)))"
  by (simp add: cycle_def Let_def split: prod.splits option.splits)

lemma cycle_slept_eq:
  "slept (cycle ta api s sd ed) =
     (case snd (read_inputs ta api s sd ed) of
        None \<Rightarrow> 60
      | Some (bp, latest) \<Rightarrow> snd (decide api s bp latest (track_position api s)))"
  by (simp add: cycle_def Let_def split: prod.splits option.splits)

lemma cycle_slept: "slept (cycle ta api s sd ed) = 60 \<or> slept (cycle ta api s sd ed) = 900"
proof (cases "snd (read_inputs ta api s sd ed)")
  case None
  then show ?thesis by (simp add: cycle_slept_eq)
next
  case (Some a)
  obtain bp latest where a: "a = (bp, latest)" by (cases a)
  show ?thesis
    using Some a decide_slept[of api s bp latest "track_position api s"]
    by (simp add: cycle_slept_eq)
qed

lemma submit_filter:
  "filter is_submit (issued (cycle ta api s sd ed)) =
     (case snd (read_inputs ta api s sd ed) of
        None \<Rightarrow> []
      | Some (bp, latest) \<Rightarrow>
          (case series_get latest ''K_9'' of
             Inl e \<Rightarrow> []
           | Inr k \<Rightarrow>
               if flt_lt k 20 \<and> track_position api s = None \<and> quote_available api s
               then [SubmitOrder s bp ''buy'' ''market'' ''gtc'']
               else []))"
  by (auto simp: cycle_issued decide_calls place_order_buy_calls read_inputs_filter
        split: option.splits prod.splits sum.splits)

lemma close_filter:
  "filter is_close (issued (cycle ta api s sd ed)) =
     (case snd (read_inputs ta api s sd ed) of
        None \<Rightarrow> []
      | Some (bp, latest) \<Rightarrow>
          (case series_get latest ''K_9'' of
             Inl e \<Rightarrow> []
           | Inr k \<Rightarrow>
               if flt_gt k 80 \<and> track_position api s \<noteq> None then [ClosePosition s] else []))"
  by (auto simp: cycle_issued decide_calls place_order_buy_calls read_inputs_filter
        split: option.splits prod.splits sum.splits)

subsection \<open>The order executor\<close>

text \<open>
  C4. Closing a position that does not exist (the client raises an APIError with status
  404 whose message contains "position does not exist", in any letter case) returns
  True, the same value as a successful close; every other failure of the close call
  returns False.
\<close>

theorem close_position_idempotent:
  "snd (close_position api symbol) =
     (api_close_position api = Inr () \<or>
      (\<exists>msg. api_close_position api = Inl (APIError (Some 404) msg) \<and>
             str_in ''position does not exist'' (lower msg)))"
  by (cases "api_close_position api"; simp add: close_position_def split: exn.splits)

theorem close_position_idempotent_witness:
  "close_position example_client ''ETH/USDC'' = ([ClosePosition ''ETH/USDC''], True) \<and>
   close_position
     (example_client\<lparr>api_close_position := Inl (APIError (Some 404) ''Position does not exist'')\<rparr>)
     ''ETH/USDC'' = ([ClosePosition ''ETH/USDC''], True) \<and>
   close_position
     (example_client\<lparr>api_close_position := Inl (APIError (Some 403) ''forbidden'')\<rparr>)
     ''ETH/USDC'' = ([ClosePosition ''ETH/USDC''], False)"
  using close_position_idempotent[of example_client "''ETH/USDC''"]
    close_position_idempotent[of
      "example_client\<lparr>api_close_position := Inl (APIError (Some 404) ''Position does not exist'')\<rparr>"
      "''ETH/USDC''"]
    close_position_idempotent[of
      "example_client\<lparr>api_close_position := Inl (APIError (Some 403) ''forbidden'')\<rparr>"
      "''ETH/USDC''"]
  by (simp add: example_defs)

text \<open>
  C9. \<open>place_order\<close> with a side other than 'buy' (in particular 'sell') submits no
  order and returns False: the only call it makes is the quotes request. With side 'buy'
  and no quote to be had for the symbol, it submits no order and returns False either.
\<close>

theorem place_order_no_order:
  "side \<noteq> ''buy'' \<or> \<not> quote_available api symbol \<Longrightarrow>
   place_order api symbol buying_power side = ([GetLatestCryptoQuotes [symbol]], False)"
  by (auto simp: place_order_def quote_available_def split: sum.splits option.splits)

theorem place_order_no_order_witness:
  "place_order example_client ''ETH/USDC'' (Fin 1000) ''sell'' =
     ([GetLatestCryptoQuotes [''ETH/USDC'']], False) \<and>
   place_order (example_client\<lparr>get_latest_crypto_quotes := Inl (OtherException ''timeout'')\<rparr>)
     ''ETH/USDC'' (Fin 1000) ''buy'' = ([GetLatestCryptoQuotes [''ETH/USDC'']], False)"
  using place_order_no_order[of "''sell''" example_client "''ETH/USDC''" "Fin 1000"]
    place_order_no_order[of "''buy''"
      "example_client\<lparr>get_latest_crypto_quotes := Inl (OtherException ''timeout'')\<rparr>"
      "''ETH/USDC''" "Fin 1000"]
  by (simp add: quote_available_def example_client_def)

subsection \<open>The decision of a cycle\<close>

text \<open>
  C1, as the code has it. A cycle issues a buy order exactly when it reaches the decision
  with a latest K below 20, tracks no position, and \<open>place_order\<close> obtains a quote for
  the symbol; it is then the one order of the cycle, a market buy of the symbol whose
  notional is the buying power read at the start of the cycle. In every other case the
  cycle issues no order.
\<close>

theorem buy_order_exactly_when:
  "filter is_submit (issued (cycle ta api symbol sd ed)) =
     (case snd (read_inputs ta api symbol sd ed) of
        None \<Rightarrow> []
      | Some (buying_power, latest) \<Rightarrow>
          (case series_get latest ''K_9'' of
             Inl e \<Rightarrow> []
           | Inr k \<Rightarrow>
               if flt_lt k 20 \<and> track_position api symbol = None \<and> quote_available api symbol
               then [SubmitOrder symbol buying_power ''buy'' ''market'' ''gtc'']
               else []))"
  by (rule submit_filter)

text \<open>The example of the specification: buying power 1000.00, K = 15, no position.\<close>

theorem buy_order_exactly_when_witness:
  "filter is_submit (issued (cycle (example_kdj 15) example_client ''ETH/USDC'' 0 30)) =
     [SubmitOrder ''ETH/USDC'' (Fin 1000) ''buy'' ''market'' ''gtc'']"
  using buy_order_exactly_when[of "example_kdj 15" example_client "''ETH/USDC''" 0 30]
  by (simp add: example_defs)

text \<open>
  C1 as stated fails: with K = 15, buying power 1000.00 and no position, a quotes dict
  without the symbol makes \<open>place_order\<close> return before it submits anything.
\<close>

theorem buy_without_quote_counterexample:
  "snd (read_inputs (example_kdj 15) (example_client\<lparr>get_latest_crypto_quotes := Inr []\<rparr>)
         ''ETH/USDC'' 0 30) =
     Some (Fin 1000, [(''K_9'', Fin 15), (''D_9'', Fin 30), (''J_9'', Fin (- 15))]) \<and>
   list_positions (example_client\<lparr>get_latest_crypto_quotes := Inr []\<rparr>) = Inr [] \<and>
   issued (cycle (example_kdj 15) (example_client\<lparr>get_latest_crypto_quotes := Inr []\<rparr>)
             ''ETH/USDC'' 0 30) =
     [GetAccount, GetCryptoBars ''ETH/USDC'' ''15Min'' 0 30, ListPositions,
      GetLatestCryptoQuotes [''ETH/USDC'']]"
  by (simp add: example_defs)

text \<open>
  C2, as the code has it. When the position query raises, whatever the error, the cycle
  tracks no position: it issues no close instruction, and it issues a buy order exactly
  when the latest K is below 20 and a quote is obtained.
\<close>

theorem position_query_failure:
  "list_positions api = Inl err \<Longrightarrow>
   track_position api symbol = None \<and>
   filter is_close (issued (cycle ta api symbol sd ed)) = [] \<and>
   filter is_submit (issued (cycle ta api symbol sd ed)) =
     (case snd (read_inputs ta api symbol sd ed) of
        None \<Rightarrow> []
      | Some (buying_power, latest) \<Rightarrow>
          (case series_get latest ''K_9'' of
             Inl e \<Rightarrow> []
           | Inr k \<Rightarrow>
               if flt_lt k 20 \<and> quote_available api symbol
               then [SubmitOrder symbol buying_power ''buy'' ''market'' ''gtc'']
               else []))"
proof -
  assume f: "list_positions api = Inl err"
  then have t: "track_position api symbol = None"
    by (simp add: track_position_def split: exn.splits)
  show ?thesis
    using t by (simp add: submit_filter close_filter split: option.splits prod.splits sum.splits)
qed

theorem position_query_failure_witness:
  "filter is_close
     (issued (cycle (example_kdj 85)
        (example_client\<lparr>list_positions := Inl (APIError (Some 500) ''internal server error'')\<rparr>)
        ''ETH/USDC'' 0 30)) = [] \<and>
   filter is_submit
     (issued (cycle (example_kdj 15)
        (example_client\<lparr>list_positions := Inl (APIError (Some 500) ''internal server error'')\<rparr>)
        ''ETH/USDC'' 0 30)) = [SubmitOrder ''ETH/USDC'' (Fin 1000) ''buy'' ''market'' ''gtc'']"
  using position_query_failure[of
      "example_client\<lparr>list_positions := Inl (APIError (Some 500) ''internal server error'')\<rparr>"
      "APIError (Some 500) ''internal server error''" "''ETH/USDC''" "example_kdj 85" 0 30]
    position_query_failure[of
      "example_client\<lparr>list_positions := Inl (APIError (Some 500) ''internal server error'')\<rparr>"
      "APIError (Some 500) ''internal server error''" "''ETH/USDC''" "example_kdj 15" 0 30]
  by (simp add: example_defs)

text \<open>
  C2 as stated fails: the position query raises an APIError of status 500, the latest K
  is 15, and the cycle submits a buy order instead of holding.
\<close>

theorem buy_on_unknown_position_counterexample:
  "issued (cycle (example_kdj 15)
     (example_client\<lparr>list_positions := Inl (APIError (Some 500) ''internal server error'')\<rparr>)
     ''ETH/USDC'' 0 30) =
     [GetAccount, GetCryptoBars ''ETH/USDC'' ''15Min'' 0 30, ListPositions,
      GetLatestCryptoQuotes [''ETH/USDC''],
      SubmitOrder ''ETH/USDC'' (Fin 1000) ''buy'' ''market'' ''gtc'']"
  by (simp add: example_defs)

text \<open>
  C3. In every cycle, no close instruction is issued when the tracked position is absent,
  and no buy order is issued when a position is tracked.
\<close>

theorem decision_respects_position:
  "(track_position api symbol = None \<longrightarrow>
      filter is_close (issued (cycle ta api symbol sd ed)) = []) \<and>
   (track_position api symbol \<noteq> None \<longrightarrow>
      filter is_submit (issued (cycle ta api symbol sd ed)) = [])"
  by (simp add: submit_filter close_filter split: option.splits prod.splits sum.splits)

theorem decision_respects_position_witness:
  "track_position example_client ''ETH/USDC'' = None \<and>
   filter is_close (issued (cycle (example_kdj 85) example_client ''ETH/USDC'' 0 30)) = [] \<and>
   track_position (example_client\<lparr>list_positions := Inr [example_position]\<rparr>) ''ETH/USDC''
     = Some example_position \<and>
   filter is_submit
     (issued (cycle (example_kdj 15) (example_client\<lparr>list_positions := Inr [example_position]\<rparr>)
        ''ETH/USDC'' 0 30)) = []"
  using decision_respects_position[of example_client "''ETH/USDC''" "example_kdj 85" 0 30]
    decision_respects_position[of "example_client\<lparr>list_positions := Inr [example_position]\<rparr>"
      "''ETH/USDC''" "example_kdj 15" 0 30]
  by (simp add: example_defs)

subsection \<open>Aborted cycles\<close>

lemma read_inputs_Some:
  "snd (read_inputs ta api s sd ed) = Some (bp, latest) \<Longrightarrow>
   get_account api = Inr bp \<and>
   (\<exists>bars. get_crypto_bars api = Inr bars \<and> \<not> df_empty bars \<and>
      \<not> df_empty (calculate_kdj ta (lower_columns bars)) \<and>
      1 \<le> df_len (calculate_kdj ta (lower_columns bars)) \<and>
      iloc_last (calculate_kdj ta (lower_columns bars)) = Inr latest)"
  by (auto simp: read_inputs_def fetch_15min_data_def Let_def
        split: sum.splits option.splits if_splits)

lemma read_inputs_no_list: "ListPositions \<notin> set (fst (read_inputs ta api s sd ed))"
  using read_inputs_calls[of ta api s sd ed] by auto

text \<open>
  C5, as the code has it. A cycle goes on to the position query and the decision only if
  the indicator frame is not empty and has at least one row (the previous point is
  optional: \<open>prev_kdj\<close> is None when there is one row); with an empty frame, after
  the account and the bars were read, the cycle stops, sleeps 60 seconds and the loop
  starts the next cycle.
\<close>

theorem proceeds_with_one_point:
  "(ListPositions \<in> set (issued (cycle ta api symbol sd ed)) \<longrightarrow>
      (\<exists>bars. get_crypto_bars api = Inr bars \<and>
         \<not> df_empty (calculate_kdj ta (lower_columns bars)) \<and>
         1 \<le> df_len (calculate_kdj ta (lower_columns bars)))) \<and>
   (get_account api = Inr bp \<and> get_crypto_bars api = Inr bars \<and> \<not> df_empty bars \<and>
    (df_empty (calculate_kdj ta (lower_columns bars)) \<or>
     df_len (calculate_kdj ta (lower_columns bars)) < 1) \<longrightarrow>
      cycle ta api symbol sd ed =
        \<lparr>issued = [GetAccount, GetCryptoBars symbol ''15Min'' sd ed], slept = 60\<rparr>)"
proof (intro conjI impI)
  assume l: "ListPositions \<in> set (issued (cycle ta api symbol sd ed))"
  show "\<exists>bars. get_crypto_bars api = Inr bars \<and>
         \<not> df_empty (calculate_kdj ta (lower_columns bars)) \<and>
         1 \<le> df_len (calculate_kdj ta (lower_columns bars))"
  proof (cases "snd (read_inputs ta api symbol sd ed)")
    case None
    with l read_inputs_no_list[of ta api symbol sd ed] show ?thesis
      by (simp add: cycle_issued)
  next
    case (Some a)
    obtain bp' latest where a: "a = (bp', latest)" by (cases a)
    from read_inputs_Some[of ta api symbol sd ed bp' latest] Some a show ?thesis by blast
  qed
next
  assume "get_account api = Inr bp \<and> get_crypto_bars api = Inr bars \<and> \<not> df_empty bars \<and>
    (df_empty (calculate_kdj ta (lower_columns bars)) \<or>
     df_len (calculate_kdj ta (lower_columns bars)) < 1)"
  then show "cycle ta api symbol sd ed =
        \<lparr>issued = [GetAccount, GetCryptoBars symbol ''15Min'' sd ed], slept = 60\<rparr>"
    by (auto simp: cycle_def read_inputs_def fetch_15min_data_def Let_def)
qed

text \<open>
  C5 as stated fails: the indicator has a single row and the cycle queries the position,
  decides and submits an order.
\<close>

theorem one_point_counterexample:
  "df_len (calculate_kdj (example_kdj 15) (lower_columns example_bars)) = 1 \<and>
   issued (cycle (example_kdj 15) example_client ''ETH/USDC'' 0 30) =
     [GetAccount, GetCryptoBars ''ETH/USDC'' ''15Min'' 0 30, ListPositions,
      GetLatestCryptoQuotes [''ETH/USDC''],
      SubmitOrder ''ETH/USDC'' (Fin 1000) ''buy'' ''market'' ''gtc'']"
  by (simp add: example_defs)

theorem proceeds_with_one_point_witness:
  "ListPositions \<in> set (issued (cycle (example_kdj 15) example_client ''ETH/USDC'' 0 30)) \<and>
   1 \<le> df_len (calculate_kdj (example_kdj 15) (lower_columns example_bars)) \<and>
   cycle (\<lambda>h l c. LibNone) example_client ''ETH/USDC'' 0 30 =
     \<lparr>issued = [GetAccount, GetCryptoBars ''ETH/USDC'' ''15Min'' 0 30], slept = 60\<rparr>"
  using proceeds_with_one_point[of "example_kdj 15" example_client "''ETH/USDC''" 0 30 "Fin 1000" example_bars]
    proceeds_with_one_point[of "\<lambda>h l c. LibNone" example_client "''ETH/USDC''" 0 30 "Fin 1000" example_bars]
  by (simp add: example_defs)

subsection \<open>The window of the bars request\<close>

lemma cycle_bars:
  "c \<in> set (issued (cycle ta api s sd ed)) \<Longrightarrow> is_bars c \<Longrightarrow> c = GetCryptoBars s ''15Min'' sd ed"
  using read_inputs_calls[of ta api s sd ed]
  by (auto simp: cycle_issued decide_calls place_order_buy_calls
       split: option.splits sum.splits if_splits)

lemma poll_loop_bars:
  "c \<in> set (calls (poll_loop ta s sd ed apis w)) \<Longrightarrow> is_bars c \<Longrightarrow>
   c \<in> set (calls w) \<or> c = GetCryptoBars s ''15Min'' sd ed"
proof (induction apis arbitrary: w)
  case Nil
  then show ?case by simp
next
  case (Cons api apis)
  from Cons.prems Cons.IH[of "w\<lparr>clock := clock w + slept (cycle ta api s sd ed),
        calls := calls w @ issued (cycle ta api s sd ed)\<rparr>"]
  show ?case by (auto simp: Let_def dest: cycle_bars)
qed

lemma poll_loop_clock:
  "clock w + 60 * length apis \<le> clock (poll_loop ta s sd ed apis w)"
proof (induction apis arbitrary: w)
  case Nil
  then show ?case by simp
next
  case (Cons api apis)
  have "60 \<le> slept (cycle ta api s sd ed)"
    using cycle_slept[of ta api s sd ed] by auto
  with Cons.IH[of "w\<lparr>clock := clock w + slept (cycle ta api s sd ed),
        calls := calls w @ issued (cycle ta api s sd ed)\<rparr>"]
  show ?case by (simp add: Let_def)
qed

text \<open>
  C10. The two dates are computed once, from the clock at the start, and every bars
  request of every later cycle carries them, while each cycle advances the clock by at
  least 60 seconds: the window does not follow the clock.
\<close>

theorem bars_window_fixed:
  "(\<forall>c \<in> set (calls (main ta apis (start_world t))). is_bars c \<longrightarrow>
      c = GetCryptoBars ''ETH/USDC'' ''15Min'' (int (t div 86400) - 30) (int (t div 86400))) \<and>
   t + 60 * length apis \<le> clock (main ta apis (start_world t))"
proof (intro conjI ballI impI)
  fix c assume "c \<in> set (calls (main ta apis (start_world t)))" "is_bars c"
  then show "c = GetCryptoBars ''ETH/USDC'' ''15Min'' (int (t div 86400) - 30) (int (t div 86400))"
    using poll_loop_bars[of c ta "''ETH/USDC''" "today (start_world t) - 30" "today (start_world t)" apis "start_world t"]
    by (simp add: main_def Let_def start_world_def today_def)
next
  show "t + 60 * length apis \<le> clock (main ta apis (start_world t))"
    using poll_loop_clock[of "start_world t" apis ta "''ETH/USDC''" "today (start_world t) - 30" "today (start_world t)"]
    by (simp add: main_def Let_def start_world_def)
qed

lemma example_hold_cycle:
  "cycle (example_kdj 50) example_client ''ETH/USDC'' sd ed =
     \<lparr>issued = [GetAccount, GetCryptoBars ''ETH/USDC'' ''15Min'' sd ed, ListPositions], slept = 900\<rparr>"
  by (simp add: example_defs)

text \<open>
  Started 100 seconds before the end of day 2, two cycles of 900 seconds end on day 3;
  both request the bars of days -28 to 2.
\<close>

theorem bars_window_fixed_witness:
  "calls (main (example_kdj 50) [example_client, example_client] (start_world 259100)) =
     [GetAccount, GetCryptoBars ''ETH/USDC'' ''15Min'' (-28) 2, ListPositions,
      GetAccount, GetCryptoBars ''ETH/USDC'' ''15Min'' (-28) 2, ListPositions] \<and>
   clock (main (example_kdj 50) [example_client, example_client] (start_world 259100)) = 260900 \<and>
   today (start_world 259100) = 2 \<and>
   today (main (example_kdj 50) [example_client, example_client] (start_world 259100)) = 3"
  using bars_window_fixed[of "example_kdj 50" "[example_client, example_client]" 259100]
  by (simp add: main_def Let_def example_hold_cycle start_world_def today_def)

subsection \<open>The indicator adapter\<close>

lemma rn_eq:
  "rn x = ''K_9'' \<longleftrightarrow> x = ''K_9_3'' \<or> x = ''K_9''"
  "rn x = ''D_9'' \<longleftrightarrow> x = ''D_9_3'' \<or> x = ''D_9''"
  "rn x = ''J_9'' \<longleftrightarrow> x = ''J_9_3'' \<or> x = ''J_9''"
  by (auto simp: rn_def kdj_renaming_def)

lemma rn_vals: "rn ''K_9_3'' = ''K_9''" "rn ''D_9_3'' = ''D_9''" "rn ''J_9_3'' = ''J_9''"
  by (simp_all add: rn_def kdj_renaming_def)

lemma set_filter_eq: "set (filter (\<lambda>x. x = a) xs) = (if a \<in> set xs then {a} else {})"
  by auto

lemma columns_rename: "columns (rename kdj_renaming r) = map rn (columns r)"
  by (simp add: columns_def rename_def rn_def comp_def)

lemma nrows_rename: "nrows (rename m r) = nrows r"
  by (simp add: rename_def)

lemma select_columns:
  "select df names = Inr f \<Longrightarrow>
   columns f = concat (map (\<lambda>n. filter (\<lambda>x. x = n) (columns df)) names) \<and> nrows f = nrows df"
  by (auto simp: select_def columns_def map_concat comp_def filter_map split: if_splits)

lemma distinct_filter_eq: "distinct xs \<Longrightarrow> a \<in> set xs \<Longrightarrow> filter (\<lambda>x. x = a) xs = [a]"
  by (induction xs) (auto simp: filter_empty_conv)

lemma filter_renamed:
  assumes "distinct cs" "a \<in> set cs" "b \<notin> set cs" "\<And>x. rn x = b \<longleftrightarrow> x = a \<or> x = b"
  shows "filter (\<lambda>x. x = b) (map rn cs) = [b]"
proof -
  have "filter (\<lambda>x. x = b) (map rn cs) = map rn (filter (\<lambda>x. rn x = b) cs)"
    by (simp add: filter_map comp_def)
  also have "filter (\<lambda>x. rn x = b) cs = filter (\<lambda>x. x = a) cs"
    using assms(3,4) by (intro filter_cong) auto
  also have "\<dots> = [a]" using assms(1,2) by (rule distinct_filter_eq)
  finally show ?thesis using assms(4)[of a] by simp
qed

lemma calculate_kdj_cases:
  "calculate_kdj ta data = DataFrame \<or>
   (\<exists>high low close r.
      getitem (lower_columns data) ''high'' = Inr high \<and>
      getitem (lower_columns data) ''low'' = Inr low \<and>
      getitem (lower_columns data) ''close'' = Inr close \<and>
      ta high low close = LibFrame r \<and>
      ''K_9_3'' \<in> set (columns r) \<and> ''D_9_3'' \<in> set (columns r) \<and> ''J_9_3'' \<in> set (columns r) \<and>
      select (rename kdj_renaming r) [''K_9'', ''D_9'', ''J_9''] = Inr (calculate_kdj ta data))"
  by (auto simp: calculate_kdj_def Let_def kdj_renaming_def split: sum.splits lib_result.splits)


lemma distinct_filter_key:
  "distinct (map fst xs) \<Longrightarrow> map_of xs a = Some v \<Longrightarrow> filter (\<lambda>c. fst c = a) xs = [(a, v)]"
proof (induction xs)
  case Nil
  then show ?case by simp
next
  case (Cons x xs)
  show ?case
  proof (cases "fst x = a")
    case True
    with Cons.prems have "filter (\<lambda>c. fst c = a) xs = []"
      by (auto simp: filter_empty_conv image_iff)
    with True Cons.prems show ?thesis by (cases x) auto
  next
    case False
    with Cons show ?thesis by (cases x) auto
  qed
qed

lemma filter_renamed_cols:
  assumes "distinct (map fst xs)" "map_of xs a = Some v" "b \<notin> fst ` set xs"
    "\<And>x. rn x = b \<longleftrightarrow> x = a \<or> x = b"
  shows "filter (\<lambda>c. fst c = b) (map (\<lambda>c. (rn (fst c), snd c)) xs) = [(b, v)]"
proof -
  have "filter (\<lambda>c. fst c = b) (map (\<lambda>c. (rn (fst c), snd c)) xs) =
        map (\<lambda>c. (rn (fst c), snd c)) (filter (\<lambda>c. rn (fst c) = b) xs)"
    by (simp add: filter_map comp_def)
  also have "filter (\<lambda>c. rn (fst c) = b) xs = filter (\<lambda>c. fst c = a) xs"
    using assms(3,4) by (intro filter_cong) auto
  also have "\<dots> = [(a, v)]" using assms(1,2) by (rule distinct_filter_key)
  finally show ?thesis using assms(4)[of a] by simp
qed

lemma cols_rename:
  "cols (rename kdj_renaming r) = map (\<lambda>c. (rn (fst c), snd c)) (cols r)"
  by (simp add: rename_def rn_def)

lemma select_cols:
  "select df names = Inr f \<Longrightarrow>
   f = \<lparr>nrows = nrows df, cols = concat (map (\<lambda>n. filter (\<lambda>c. fst c = n) (cols df)) names)\<rparr>"
  by (cases df) (auto simp: select_def split: if_splits)

lemma calculate_kdj_frame:
  assumes "getitem (lower_columns data) ''high'' = Inr high"
    and "getitem (lower_columns data) ''low'' = Inr low"
    and "getitem (lower_columns data) ''close'' = Inr close"
    and "ta high low close = LibFrame r"
    and "''K_9_3'' \<in> set (columns r)" "''D_9_3'' \<in> set (columns r)" "''J_9_3'' \<in> set (columns r)"
  shows "select (rename kdj_renaming r) [''K_9'', ''D_9'', ''J_9''] = Inr (calculate_kdj ta data)"
proof -
  have m: "''K_9'' \<in> set (columns (rename kdj_renaming r))"
    "''D_9'' \<in> set (columns (rename kdj_renaming r))"
    "''J_9'' \<in> set (columns (rename kdj_renaming r))"
    using assms(5,6,7) rn_vals by (simp_all add: columns_rename image_iff) metis+
  then obtain f where f: "select (rename kdj_renaming r) [''K_9'', ''D_9'', ''J_9''] = Inr f"
    by (simp add: select_def)
  have "calculate_kdj ta data =
          (case select (rename kdj_renaming r) [''K_9'', ''D_9'', ''J_9''] of
             Inl e \<Rightarrow> DataFrame | Inr final_kdj \<Rightarrow> final_kdj)"
    using assms by (simp add: calculate_kdj_def Let_def kdj_renaming_def)
  with f show ?thesis by simp
qed

text \<open>
  C6, as the code has it. When the library does not give a frame holding the three
  columns K\_9\_3, D\_9\_3 and J\_9\_3 (a price column is missing, the library raises,
  returns None, or names its columns otherwise), \<open>calculate_kdj\<close> returns the empty
  \<open>pd.DataFrame()\<close>. When it gives such a frame, whose labels are distinct and none
  of which is already K\_9, D\_9 or J\_9, the result has the rows of that frame and
  exactly three columns, K\_9, D\_9 and J\_9 in this order, which are the library's columns
  K\_9\_3, D\_9\_3 and J\_9\_3 cell for cell. In any case a result that is not empty
  carries no label other than K\_9, D\_9 and J\_9.
\<close>

theorem calculate_kdj_all_or_nothing:
  "((\<forall>high low close r.
        getitem (lower_columns data) ''high'' = Inr high \<and>
        getitem (lower_columns data) ''low'' = Inr low \<and>
        getitem (lower_columns data) ''close'' = Inr close \<and>
        ta high low close = LibFrame r \<longrightarrow>
        \<not> (''K_9_3'' \<in> set (columns r) \<and> ''D_9_3'' \<in> set (columns r) \<and>
           ''J_9_3'' \<in> set (columns r))) \<longrightarrow>
      calculate_kdj ta data = DataFrame \<and> df_empty (calculate_kdj ta data)) \<and>
   (getitem (lower_columns data) ''high'' = Inr high \<and>
    getitem (lower_columns data) ''low'' = Inr low \<and>
    getitem (lower_columns data) ''close'' = Inr close \<and>
    ta high low close = LibFrame r \<and>
    ''K_9_3'' \<in> set (columns r) \<and> ''D_9_3'' \<in> set (columns r) \<and> ''J_9_3'' \<in> set (columns r) \<and>
    distinct (columns r) \<and> ''K_9'' \<notin> set (columns r) \<and>
    ''D_9'' \<notin> set (columns r) \<and> ''J_9'' \<notin> set (columns r) \<longrightarrow>
      (\<exists>k d j. map_of (cols r) ''K_9_3'' = Some k \<and> map_of (cols r) ''D_9_3'' = Some d \<and>
         map_of (cols r) ''J_9_3'' = Some j \<and>
         calculate_kdj ta data =
           \<lparr>nrows = nrows r, cols = [(''K_9'', k), (''D_9'', d), (''J_9'', j)]\<rparr>)) \<and>
   (\<not> df_empty (calculate_kdj ta data) \<longrightarrow>
      set (columns (calculate_kdj ta data)) = {''K_9'', ''D_9'', ''J_9''})"
proof (intro conjI impI)
  assume a: "\<forall>high low close r.
        getitem (lower_columns data) ''high'' = Inr high \<and>
        getitem (lower_columns data) ''low'' = Inr low \<and>
        getitem (lower_columns data) ''close'' = Inr close \<and>
        ta high low close = LibFrame r \<longrightarrow>
        \<not> (''K_9_3'' \<in> set (columns r) \<and> ''D_9_3'' \<in> set (columns r) \<and>
           ''J_9_3'' \<in> set (columns r))"
  with calculate_kdj_cases[of ta data] show d: "calculate_kdj ta data = DataFrame" by blast
  then show "df_empty (calculate_kdj ta data)" by (simp add: df_empty_def DataFrame_def)
next
  assume ne: "\<not> df_empty (calculate_kdj ta data)"
  then have "calculate_kdj ta data \<noteq> DataFrame" by (auto simp: df_empty_def DataFrame_def)
  with calculate_kdj_cases[of ta data] obtain r where
    r: "''K_9_3'' \<in> set (columns r)" "''D_9_3'' \<in> set (columns r)" "''J_9_3'' \<in> set (columns r)"
      "select (rename kdj_renaming r) [''K_9'', ''D_9'', ''J_9''] = Inr (calculate_kdj ta data)"
    by blast
  have m: "''K_9'' \<in> set (map rn (columns r))" "''D_9'' \<in> set (map rn (columns r))"
    "''J_9'' \<in> set (map rn (columns r))"
    using r(1,2,3) rn_vals by (simp_all add: image_iff) metis+
  from select_columns[OF r(4)] m
  show "set (columns (calculate_kdj ta data)) = {''K_9'', ''D_9'', ''J_9''}"
    by (simp add: columns_rename set_filter_eq) blast
next
  assume h: "getitem (lower_columns data) ''high'' = Inr high \<and>
    getitem (lower_columns data) ''low'' = Inr low \<and>
    getitem (lower_columns data) ''close'' = Inr close \<and>
    ta high low close = LibFrame r \<and>
    ''K_9_3'' \<in> set (columns r) \<and> ''D_9_3'' \<in> set (columns r) \<and> ''J_9_3'' \<in> set (columns r) \<and>
    distinct (columns r) \<and> ''K_9'' \<notin> set (columns r) \<and>
    ''D_9'' \<notin> set (columns r) \<and> ''J_9'' \<notin> set (columns r)"
  then have sel: "select (rename kdj_renaming r) [''K_9'', ''D_9'', ''J_9''] = Inr (calculate_kdj ta data)"
    using calculate_kdj_frame[where data = data and high = high and low = low and close = close
        and ta = ta and r = r]
    by blast
  from h have dist: "distinct (map fst (cols r))" by (simp add: columns_def)
  from h obtain k d j where kdj: "map_of (cols r) ''K_9_3'' = Some k"
    "map_of (cols r) ''D_9_3'' = Some d" "map_of (cols r) ''J_9_3'' = Some j"
    by (auto simp: columns_def dest!: weak_map_of_SomeI)
  from h have nk: "''K_9'' \<notin> fst ` set (cols r)" "''D_9'' \<notin> fst ` set (cols r)"
    "''J_9'' \<notin> fst ` set (cols r)" by (simp_all add: columns_def)
  have fk: "filter (\<lambda>c. fst c = ''K_9'') (map (\<lambda>c. (rn (fst c), snd c)) (cols r)) = [(''K_9'', k)]"
    using dist kdj(1) nk(1) rn_eq(1) by (rule filter_renamed_cols)
  have fd: "filter (\<lambda>c. fst c = ''D_9'') (map (\<lambda>c. (rn (fst c), snd c)) (cols r)) = [(''D_9'', d)]"
    using dist kdj(2) nk(2) rn_eq(2) by (rule filter_renamed_cols)
  have fj: "filter (\<lambda>c. fst c = ''J_9'') (map (\<lambda>c. (rn (fst c), snd c)) (cols r)) = [(''J_9'', j)]"
    using dist kdj(3) nk(3) rn_eq(3) by (rule filter_renamed_cols)
  from select_cols[OF sel] fk fd fj
  have "calculate_kdj ta data =
           \<lparr>nrows = nrows r, cols = [(''K_9'', k), (''D_9'', d), (''J_9'', j)]\<rparr>"
    by (simp add: cols_rename nrows_rename)
  with kdj show "\<exists>k d j. map_of (cols r) ''K_9_3'' = Some k \<and> map_of (cols r) ''D_9_3'' = Some d \<and>
         map_of (cols r) ''J_9_3'' = Some j \<and>
         calculate_kdj ta data =
           \<lparr>nrows = nrows r, cols = [(''K_9'', k), (''D_9'', d), (''J_9'', j)]\<rparr>"
    by blast
qed

theorem calculate_kdj_all_or_nothing_witness:
  "calculate_kdj (\<lambda>high low close. LibNone) example_bars = DataFrame \<and>
   \<not> df_empty (calculate_kdj (example_kdj 15) example_bars) \<and>
   calculate_kdj (example_kdj 15) example_bars =
     \<lparr>nrows = 1,
      cols = [(''K_9'', \<lambda>i. Fin 15), (''D_9'', \<lambda>i. Fin 30), (''J_9'', \<lambda>i. Fin (- 15))]\<rparr>"
  using calculate_kdj_all_or_nothing[of example_bars "\<lambda>high low close. LibNone"]
    calculate_kdj_all_or_nothing[of example_bars "example_kdj 15" "[[Fin 2510]]" "[[Fin 2490]]"
      "[[Fin 2505]]"
      "\<lparr>nrows = 1, cols = [(''K_9_3'', \<lambda>i. Fin 15), (''D_9_3'', \<lambda>i. Fin 30),
                          (''J_9_3'', \<lambda>i. Fin (3 * 15 - 60))]\<rparr>"]
  by (simp add: example_defs clashing_kdj_def)

text \<open>
  C6 as stated fails: on a library frame that holds a column K\_9 beside K\_9\_3, the
  result is not empty and has four columns, two of them labelled K\_9.
\<close>

theorem four_columns_counterexample:
  "\<not> df_empty (calculate_kdj clashing_kdj example_bars) \<and>
   columns (calculate_kdj clashing_kdj example_bars) = [''K_9'', ''K_9'', ''D_9'', ''J_9'']"
  by (simp add: example_defs clashing_kdj_def)

subsection \<open>The stream listener\<close>

lemmas stream_defs = example_ctx_def example_loads_def new_session_def step_def on_open_def
  on_close_def
  on_message_def on_message_body_def dispatch_def connected_branch_def send_auth_subscribe_def
  dict_get_def


lemma send_auth_subscribe_cases:
  "fst (send_auth_subscribe ctx) = [] \<or>
   fst (send_auth_subscribe ctx) = [AuthMsg (api_key ctx) (secret_key ctx)] \<or>
   fst (send_auth_subscribe ctx) =
     [AuthMsg (api_key ctx) (secret_key ctx), SubscribeMsg [stream_symbol ctx] []]"
  by (simp add: send_auth_subscribe_def Let_def)

lemma connected_branch_cases:
  "fst (connected_branch ctx data) = [] \<or>
   fst (connected_branch ctx data) = fst (send_auth_subscribe ctx)"
  by (auto simp: connected_branch_def split: sum.splits prod.splits)

lemma dispatch_sends_nothing: "fst (dispatch d0) = []"
  by (auto simp: dispatch_def split: sum.splits)

lemma on_message_body_cases:
  "fst (on_message_body ctx msg) = [] \<or>
   fst (on_message_body ctx msg) = fst (send_auth_subscribe ctx)"
proof (cases "json_loads ctx msg")
  case None
  then show ?thesis by (simp add: on_message_body_def)
next
  case (Some data)
  then show ?thesis
    using connected_branch_cases[of ctx data]
    by (auto simp: on_message_body_def dispatch_sends_nothing split: sum.splits)
qed

lemma on_message_fst: "fst (on_message ctx msg) = fst (on_message_body ctx msg)"
  by (auto simp: on_message_def split: prod.splits option.splits)

lemma on_message_returns: "snd (snd (on_message ctx msg)) = None"
  by (auto simp: on_message_def split: prod.splits option.splits)

lemma on_open_fst: "fst (on_open ctx) = fst (send_auth_subscribe ctx)"
  by (simp add: on_open_def split: prod.splits)

lemma follows_auth_append:
  assumes "follows_auth ctx xs"
    and "m = [] \<or> m = [AuthMsg (api_key ctx) (secret_key ctx)] \<or>
         m = [AuthMsg (api_key ctx) (secret_key ctx), SubscribeMsg [stream_symbol ctx] []]"
  shows "follows_auth ctx (xs @ m)"
  unfolding follows_auth_def
proof (intro allI impI)
  fix i q t
  assume a: "i < length (xs @ m) \<and> (xs @ m) ! i = SubscribeMsg q t"
  show "0 < i \<and> (xs @ m) ! (i - 1) = AuthMsg (api_key ctx) (secret_key ctx) \<and>
        q = [stream_symbol ctx] \<and> t = []"
  proof (cases "i < length xs")
    case True
    from True a assms(1) have "0 < i \<and> xs ! (i - 1) = AuthMsg (api_key ctx) (secret_key ctx) \<and>
        q = [stream_symbol ctx] \<and> t = []"
      unfolding follows_auth_def by (simp add: nth_append)
    moreover from True have "i - 1 < length xs" by simp
    ultimately show ?thesis by (simp add: nth_append)
  next
    case False
    then have ge: "length xs \<le> i" by simp
    from assms(2) consider "m = []" | "m = [AuthMsg (api_key ctx) (secret_key ctx)]"
      | "m = [AuthMsg (api_key ctx) (secret_key ctx), SubscribeMsg [stream_symbol ctx] []]"
      by blast
    then show ?thesis
    proof cases
      case 1
      with a False show ?thesis by simp
    next
      case 2
      with a ge have "i = length xs" by simp
      with a 2 show ?thesis by (simp add: nth_append)
    next
      case 3
      with a ge have "i = length xs \<or> i = Suc (length xs)" by auto
      then show ?thesis
      proof
        assume "i = length xs"
        with a 3 show ?thesis by (simp add: nth_append)
      next
        assume "i = Suc (length xs)"
        with a 3 show ?thesis by (simp add: nth_append)
      qed
    qed
  qed
qed

lemma step_sent:
  "sent (step ctx ev s) = sent s \<or>
   sent (step ctx ev s) = sent s @ fst (send_auth_subscribe ctx)"
proof (cases ev)
  case Opened
  then show ?thesis using on_open_fst[of ctx] by (auto simp: step_def split: prod.splits)
next
  case (Message msg)
  then show ?thesis
    using on_message_body_cases[of ctx msg] on_message_fst[of ctx msg]
    by (auto simp: step_def split: prod.splits)
next
  case (Failed err)
  then show ?thesis by (simp add: step_def)
next
  case Closed
  then show ?thesis by (simp add: step_def on_close_def)
qed

lemma step_follows_auth: "follows_auth ctx (sent s) \<Longrightarrow> follows_auth ctx (sent (step ctx ev s))"
proof -
  assume h: "follows_auth ctx (sent s)"
  from step_sent[of ctx ev s] show ?thesis
  proof
    assume "sent (step ctx ev s) = sent s"
    with h show ?thesis by simp
  next
    assume "sent (step ctx ev s) = sent s @ fst (send_auth_subscribe ctx)"
    with follows_auth_append[OF h send_auth_subscribe_cases] show ?thesis by simp
  qed
qed

lemma listen_follows_auth:
  "follows_auth ctx (sent s) \<Longrightarrow> follows_auth ctx (sent (listen ctx evs s))"
  by (induction evs arbitrary: s) (auto intro: step_follows_auth)

lemma step_message:
  "alive (step ctx (Message msg) s) \<and>
   handled_count (step ctx (Message msg) s) = handled_count s + 1"
  using on_message_returns[of ctx msg] by (auto simp: step_def split: prod.splits)

lemma listen_messages:
  "alive s \<Longrightarrow>
   alive (listen ctx (map Message texts) s) \<and>
   handled_count (listen ctx (map Message texts) s) = handled_count s + length texts"
proof (induction texts arbitrary: s)
  case Nil
  then show ?case by simp
next
  case (Cons msg texts)
  from step_message[of ctx msg s] Cons.IH[of "step ctx (Message msg) s"] Cons.prems
  show ?case by simp
qed

lemma connected_branch_sends:
  "fst (connected_branch ctx data) =
     (case data of
        JArr (JObj kvs # rest) \<Rightarrow>
          if dict_get kvs ''msg'' = Some (JStr ''connected'')
          then fst (send_auth_subscribe ctx) else []
      | _ \<Rightarrow> [])"
proof (cases data)
  case (JArr xs)
  show ?thesis
  proof (cases xs)
    case Nil
    with JArr show ?thesis by (simp add: connected_branch_def)
  next
    case (Cons x rest)
    with JArr show ?thesis
      by (cases x) (auto simp: connected_branch_def split: option.splits prod.splits)
  qed
next
  case (JStr str)
  then show ?thesis by (cases str) (simp_all add: connected_branch_def)
qed (simp_all add: connected_branch_def)

lemma on_message_body_sends:
  "fst (on_message_body ctx msg) =
     (case json_loads ctx msg of
        None \<Rightarrow> []
      | Some data \<Rightarrow> if is_connected data then fst (send_auth_subscribe ctx) else [])"
proof (cases "json_loads ctx msg")
  case None
  then show ?thesis by (simp add: on_message_body_def)
next
  case (Some data)
  show ?thesis
  proof (cases data)
    case (JArr xs)
    show ?thesis
    proof (cases xs)
      case Nil
      with JArr Some show ?thesis
        by (simp add: on_message_body_def connected_branch_sends)
    next
      case (Cons x rest)
      with JArr Some show ?thesis
        by (cases x)
           (auto simp: on_message_body_def connected_branch_sends dispatch_sends_nothing
              split: option.splits)
    qed
  next
    case (JStr str)
    with Some show ?thesis
      by (cases str)
         (auto simp: on_message_body_def connected_branch_sends dispatch_sends_nothing)
  qed (insert Some, auto simp: on_message_body_def connected_branch_sends)
qed

text \<open>
  C7, as the code has it. The listener keeps no connection state. Every subscribe request
  it sends is its own (the quotes of the symbol) and comes immediately after its
  credentials, sent by the same handler. \<open>on_open\<close> sends the two as soon as the
  transport is open, before any message is received: the subscribe request does not wait
  for a confirmation of the credentials. \<open>on_message\<close> sends them again, in the same
  way, on each message that is a non-empty array whose first element is an object
  without the key 'T' and with \<open>msg\<close> equal to 'connected', and sends nothing on any
  other message. A send that raises stops the pair at that point.
\<close>

theorem subscribe_follows_credentials:
  "(sent s = [] \<and> i < length (sent (listen ctx evs s)) \<and>
      sent (listen ctx evs s) ! i = SubscribeMsg q t \<longrightarrow>
      0 < i \<and> sent (listen ctx evs s) ! (i - 1) = AuthMsg (api_key ctx) (secret_key ctx) \<and>
      q = [stream_symbol ctx] \<and> t = []) \<and>
   fst (on_open ctx) =
     (if \<not> ws_send ctx (AuthMsg (api_key ctx) (secret_key ctx)) then []
      else if \<not> ws_send ctx (SubscribeMsg [stream_symbol ctx] [])
      then [AuthMsg (api_key ctx) (secret_key ctx)]
      else [AuthMsg (api_key ctx) (secret_key ctx), SubscribeMsg [stream_symbol ctx] []]) \<and>
   (json_loads ctx msg = Some (JArr (JObj kvs # rest)) \<and> dict_get kvs ''T'' = None \<and>
    dict_get kvs ''msg'' = Some (JStr ''connected'') \<longrightarrow>
      fst (on_message ctx msg) = fst (on_open ctx)) \<and>
   ((\<forall>kvs rest. json_loads ctx msg = Some (JArr (JObj kvs # rest)) \<longrightarrow>
        dict_get kvs ''T'' \<noteq> None \<or> dict_get kvs ''msg'' \<noteq> Some (JStr ''connected'')) \<longrightarrow>
      fst (on_message ctx msg) = [])"
proof (intro conjI impI)
  assume a: "sent s = [] \<and> i < length (sent (listen ctx evs s)) \<and>
      sent (listen ctx evs s) ! i = SubscribeMsg q t"
  then have "follows_auth ctx (sent s)" by (simp add: follows_auth_def)
  then have "follows_auth ctx (sent (listen ctx evs s))" by (rule listen_follows_auth)
  with a show "0 < i" "sent (listen ctx evs s) ! (i - 1) = AuthMsg (api_key ctx) (secret_key ctx)"
    "q = [stream_symbol ctx]" "t = []"
    unfolding follows_auth_def by blast+
next
  show "fst (on_open ctx) =
     (if \<not> ws_send ctx (AuthMsg (api_key ctx) (secret_key ctx)) then []
      else if \<not> ws_send ctx (SubscribeMsg [stream_symbol ctx] [])
      then [AuthMsg (api_key ctx) (secret_key ctx)]
      else [AuthMsg (api_key ctx) (secret_key ctx), SubscribeMsg [stream_symbol ctx] []])"
    by (simp add: on_open_def send_auth_subscribe_def Let_def)
next
  assume "json_loads ctx msg = Some (JArr (JObj kvs # rest)) \<and> dict_get kvs ''T'' = None \<and>
    dict_get kvs ''msg'' = Some (JStr ''connected'')"
  then show "fst (on_message ctx msg) = fst (on_open ctx)"
    by (simp add: on_message_fst on_message_body_sends on_open_fst)
next
  assume n: "\<forall>kvs rest. json_loads ctx msg = Some (JArr (JObj kvs # rest)) \<longrightarrow>
        dict_get kvs ''T'' \<noteq> None \<or> dict_get kvs ''msg'' \<noteq> Some (JStr ''connected'')"
  show "fst (on_message ctx msg) = []"
  proof (cases "json_loads ctx msg")
    case None
    then show ?thesis by (simp add: on_message_fst on_message_body_sends)
  next
    case (Some data)
    have "\<not> is_connected data"
    proof
      assume "is_connected data"
      then obtain kvs rest where "data = JArr (JObj kvs # rest)" "dict_get kvs ''T'' = None"
        "dict_get kvs ''msg'' = Some (JStr ''connected'')"
        by (cases data rule: is_connected.cases) auto
      with n Some show False by blast
    qed
    with Some show ?thesis by (simp add: on_message_fst on_message_body_sends)
  qed
qed

theorem subscribe_follows_credentials_witness:
  "sent (listen example_ctx [Opened, Message ''[{msg: connected}]''] new_session) ! 3 =
     SubscribeMsg [''ETH/USDC''] [] \<and>
   sent (listen example_ctx [Opened, Message ''[{msg: connected}]''] new_session) ! 2 =
     AuthMsg ''key'' ''secret'' \<and>
   fst (on_open example_ctx) = [AuthMsg ''key'' ''secret'', SubscribeMsg [''ETH/USDC''] []] \<and>
   fst (on_message example_ctx ''[{msg: connected}]'') =
     [AuthMsg ''key'' ''secret'', SubscribeMsg [''ETH/USDC''] []] \<and>
   fst (on_message example_ctx ''[{T: zz}]'') = []"
  using subscribe_follows_credentials[of new_session 3 example_ctx
      "[Opened, Message ''[{msg: connected}]'']" "[''ETH/USDC'']" "[]"
      "''[{msg: connected}]''" "[(''msg'', JStr ''connected'')]" "[]"]
    subscribe_follows_credentials[of new_session 3 example_ctx
      "[Opened, Message ''[{msg: connected}]'']" "[''ETH/USDC'']" "[]"
      "''[{T: zz}]''" "[]" "[]"]
  by (simp add: stream_defs)

text \<open>
  C7 as stated fails: on the opening of the transport alone, with no message received,
  the subscribe request is already sent.
\<close>

theorem subscribe_before_confirmation_counterexample:
  "sent (listen example_ctx [Opened] new_session) =
     [AuthMsg ''key'' ''secret'', SubscribeMsg [''ETH/USDC''] []] \<and>
   handled_count (listen example_ctx [Opened] new_session) = 0"
  by (simp add: stream_defs)

text \<open>
  C8. For every message text, \<open>on_message\<close> returns without an exception; when
  its body raises (a text that is not JSON, an empty array, a missing or ill-typed field),
  the error is logged. So a listener that is receiving handles every message of any
  sequence of messages and is still receiving after the last one.
\<close>

theorem on_message_never_raises:
  "snd (snd (on_message ctx msg)) = None \<and>
   (snd (snd (on_message_body ctx msg)) \<noteq> None \<longrightarrow>
      LogError ''message handling'' \<in> set (fst (snd (on_message ctx msg)))) \<and>
   (alive s \<longrightarrow>
      alive (listen ctx (map Message texts) s) \<and>
      handled_count (listen ctx (map Message texts) s) = handled_count s + length texts)"
proof (intro conjI impI)
  show "snd (snd (on_message ctx msg)) = None" by (rule on_message_returns)
next
  assume "snd (snd (on_message_body ctx msg)) \<noteq> None"
  then show "LogError ''message handling'' \<in> set (fst (snd (on_message ctx msg)))"
    by (auto simp: on_message_def split: prod.splits option.splits)
next
  assume "alive s"
  then show "alive (listen ctx (map Message texts) s)"
    "handled_count (listen ctx (map Message texts) s) = handled_count s + length texts"
    using listen_messages[of s ctx texts] by simp_all
qed

theorem on_message_never_raises_witness:
  "snd (snd (on_message_body example_ctx ''not json'')) = Some JSONDecodeError \<and>
   snd (snd (on_message_body example_ctx ''[]'')) = Some IndexError \<and>
   snd (snd (on_message_body example_ctx ''[{T: trade_update, order: null}]'')) = Some AttributeError \<and>
   on_message example_ctx ''not json'' = ([], [LogError ''message handling''], None) \<and>
   logs (listen example_ctx
          (map Message [''not json'', ''[]'', ''[{T: trade_update, order: null}]'', ''[{T: zz}]''])
          new_session) =
     [LogError ''message handling'', LogError ''message handling'', LogError ''message handling''] \<and>
   alive (listen example_ctx
          (map Message [''not json'', ''[]'', ''[{T: trade_update, order: null}]'', ''[{T: zz}]''])
          new_session) \<and>
   handled_count (listen example_ctx
          (map Message [''not json'', ''[]'', ''[{T: trade_update, order: null}]'', ''[{T: zz}]''])
          new_session) = 4"
  using on_message_never_raises[of example_ctx "''not json''" new_session
      "[''not json'', ''[]'', ''[{T: trade_update, order: null}]'', ''[{T: zz}]'']"]
  by (simp add: stream_defs)

end
